theory Spec2Isabelle
  imports Complex_Main
begin

section \<open>Request gateway (services/api.ts)\<close>

text \<open>
  The browser state the gateway touches: \<open>localStorage\<close> (a string-keyed store of strings,
  \<open>getItem\<close> of a missing key is \<open>null\<close>, here \<open>None\<close>) and \<open>window.location.href\<close>.
\<close>

record browser =
  localStorage :: "string \<rightharpoonup> string"
  location_href :: string

definition getItem :: "browser \<Rightarrow> string \<Rightarrow> string option" where
  "getItem b k = localStorage b k"

definition removeItem :: "string \<Rightarrow> browser \<Rightarrow> browser" where
  "removeItem k b = b\<lparr>localStorage := (localStorage b)(k := None)\<rparr>"

text \<open>An axios request configuration, with the parts the gateway and its callers set.\<close>

record request_config =
  url :: string
  http_method :: string
  headers :: "string \<rightharpoonup> string"
  params :: "(string \<times> string) list"

text \<open>
  \<open>axios.create({ baseURL, headers: { 'Content-Type': 'application/json' } })\<close>: every
  call of \<open>apiService\<close> goes through this instance as \<open>api.get(url, { params })\<close>,
  \<open>api.post(url, data)\<close>, \<open>api.put\<close> or \<open>api.delete\<close> and passes no header of its own.
\<close>

definition api_config :: "string \<Rightarrow> string \<Rightarrow> (string \<times> string) list \<Rightarrow> request_config" where
  "api_config m u ps =
     \<lparr>url = u, http_method = m,
      headers = [''Content-Type'' \<mapsto> ''application/json''],
      params = ps\<rparr>"

text \<open>
  The request interceptor: \<open>const token = localStorage.getItem('token'); if (token) { ... }\<close>.
  A string is truthy when it is not empty.
\<close>

definition request_interceptor :: "browser \<Rightarrow> request_config \<Rightarrow> request_config" where
  "request_interceptor b config =
     (case getItem b ''token'' of
        None \<Rightarrow> config
      | Some token \<Rightarrow>
          if token \<noteq> []
          then config\<lparr>headers := (headers config)(''Authorization'' \<mapsto> ''Bearer '' @ token)\<rparr>
          else config)"

text \<open>
  What the response interceptor sees: a response, or an error that may carry one
  (\<open>error.response\<close> is absent for a network failure). \<open>data_message\<close> is
  \<open>response.data?.message\<close>.
\<close>

record http_response =
  status :: int
  data_message :: "string option"

record thrown =
  response :: "http_response option"
  message :: string

datatype 'a settled = Fulfilled 'a | Rejected thrown

text \<open>\<open>error.response?.status === 401\<close>\<close>

definition status_is_401 :: "thrown \<Rightarrow> bool" where
  "status_is_401 e = (case response e of None \<Rightarrow> False | Some r \<Rightarrow> status r = 401)"

definition on_rejected :: "browser \<Rightarrow> thrown \<Rightarrow> browser \<times> http_response settled" where
  "on_rejected b e =
     (if status_is_401 e
      then ((removeItem ''user'' (removeItem ''token'' b))\<lparr>location_href := ''/login''\<rparr>,
            Rejected e)
      else (b, Rejected e))"

fun response_interceptor ::
  "browser \<Rightarrow> http_response settled \<Rightarrow> browser \<times> http_response settled" where
  "response_interceptor b (Fulfilled r) = (b, Fulfilled r)"
| "response_interceptor b (Rejected e) = on_rejected b e"


section \<open>Access gate (components/ProtectedRoute.tsx)\<close>

text \<open>
  The identity held by the auth context. \<open>customerId\<close> is \<open>None\<close> when the field is
  \<open>undefined\<close> or \<open>null\<close>.
\<close>

record auth_user =
  role :: string
  customerId :: "string option"

text \<open>What \<open>useAuth()\<close> hands to the gate.\<close>

record auth_context =
  isAuthenticated :: bool
  isLoading :: bool
  user :: "auth_user option"

text \<open>
  What the gate renders: the progress indicator, a \<open>Navigate\<close> to a path with the
  location it remembers in \<open>state.from\<close> (if any), or the children.
\<close>

datatype ('l, 'c) rendered = CircularProgress | Navigate string "'l option" | Children 'c

text \<open>\<open>user?.role\<close>\<close>

definition user_role :: "auth_context \<Rightarrow> string option" where
  "user_role ctx = map_option role (user ctx)"

definition ProtectedRoute ::
  "auth_context \<Rightarrow> 'l \<Rightarrow> bool \<Rightarrow> bool \<Rightarrow> 'c \<Rightarrow> ('l, 'c) rendered" where
  "ProtectedRoute ctx location requireAdmin requireSuperAdmin children =
     (if isLoading ctx then CircularProgress
      else if \<not> isAuthenticated ctx then Navigate ''/login'' (Some location)
      else if requireAdmin \<and> user_role ctx \<noteq> Some ''ADMIN'' \<and> user_role ctx \<noteq> Some ''SUPERADMIN''
        then Navigate ''/'' None
      else if requireSuperAdmin \<and> user_role ctx \<noteq> Some ''SUPERADMIN''
        then Navigate ''/'' None
      else Children children)"


section \<open>Query scoping (pages/Dashboard.tsx, pages/Analytics.tsx, pages/Events.tsx)\<close>

record analytics_params =
  ap_startDate :: string
  ap_endDate :: string
  ap_customerId :: "string option"

text \<open>
  \<open>user && user.role !== 'SUPERADMIN' && user.customerId\<close>: the tenant to force, if
  any. \<open>user.customerId\<close> is truthy when it is a non-empty string.
\<close>

definition forced_tenant :: "auth_user option \<Rightarrow> string option" where
  "forced_tenant u =
     (case u of
        None \<Rightarrow> None
      | Some usr \<Rightarrow>
          if role usr \<noteq> ''SUPERADMIN''
          then (case customerId usr of
                  None \<Rightarrow> None
                | Some c \<Rightarrow> if c \<noteq> [] then Some c else None)
          else None)"

definition analyticsParams :: "auth_user option \<Rightarrow> string \<Rightarrow> string \<Rightarrow> analytics_params" where
  "analyticsParams u start end' =
     (let p = \<lparr>ap_startDate = start, ap_endDate = end', ap_customerId = None\<rparr>
      in case forced_tenant u of
           None \<Rightarrow> p
         | Some c \<Rightarrow> p\<lparr>ap_customerId := Some c\<rparr>)"

text \<open>The filter form of the events page; every field starts as the empty string.\<close>

record filters =
  f_customerId :: string
  f_userId :: string
  f_vendor :: string
  f_model :: string
  f_apiType :: string

record events_params =
  ep_customerId :: string
  ep_userId :: string
  ep_vendor :: string
  ep_model :: string
  ep_apiType :: string
  ep_page :: int
  ep_size :: int

text \<open>\<open>{ ...filters, page, size: rowsPerPage }\<close>, then the same tenant test.\<close>

definition eventsParams :: "auth_user option \<Rightarrow> filters \<Rightarrow> int \<Rightarrow> int \<Rightarrow> events_params" where
  "eventsParams u fs page rowsPerPage =
     (let p = \<lparr>ep_customerId = f_customerId fs, ep_userId = f_userId fs,
               ep_vendor = f_vendor fs, ep_model = f_model fs, ep_apiType = f_apiType fs,
               ep_page = page, ep_size = rowsPerPage\<rparr>
      in case forced_tenant u of
           None \<Rightarrow> p
         | Some c \<Rightarrow> p\<lparr>ep_customerId := c\<rparr>)"


section \<open>Analytics normalizer (the transform inside \<open>loadAnalytics\<close>)\<close>

text \<open>
  The payload is whatever JSON the backend sent, and the view model is a plain object
  built from it, so both are values of one type of JavaScript data. An object is the
  list of its properties in insertion order; the keys of a parsed object are distinct.
  Numbers are modelled as reals: a parsed JSON number is never \<open>NaN\<close>.
\<close>

datatype js =
    JUndefined
  | JNull
  | JBool bool
  | JNum real
  | JStr string
  | JArr "js list"
  | JObj "(string \<times> js) list"

fun truthy :: "js \<Rightarrow> bool" where
  "truthy JUndefined = False"
| "truthy JNull = False"
| "truthy (JBool b) = b"
| "truthy (JNum x) = (x \<noteq> 0)"
| "truthy (JStr s) = (s \<noteq> [])"
| "truthy (JArr xs) = True"
| "truthy (JObj fs) = True"

text \<open>\<open>a || b\<close>\<close>

definition js_or :: "js \<Rightarrow> js \<Rightarrow> js" where
  "js_or a b = (if truthy a then a else b)"

fun nullish :: "js \<Rightarrow> bool" where
  "nullish JUndefined = True"
| "nullish JNull = True"
| "nullish v = False"

text \<open>
  \<open>v.k\<close> for a \<open>v\<close> that is neither \<open>undefined\<close> nor \<open>null\<close>: the property of an
  object, \<open>undefined\<close> when the object lacks it or \<open>v\<close> is a primitive or an array
  (none of the keys read below is a built-in property).
\<close>

fun field :: "js \<Rightarrow> string \<Rightarrow> js" where
  "field (JObj fs) k = (case map_of fs k of None \<Rightarrow> JUndefined | Some v \<Rightarrow> v)"
| "field v k = JUndefined"

definition type_error :: "string \<Rightarrow> thrown" where
  "type_error m = \<lparr>response = None, message = m\<rparr>"

text \<open>Reading a property of \<open>undefined\<close> or \<open>null\<close> throws a TypeError.\<close>

definition cannot_read :: "js \<Rightarrow> string \<Rightarrow> thrown" where
  "cannot_read v k = type_error
     (''Cannot read properties of '' @ (if v = JNull then ''null'' else ''undefined'')
        @ '' (reading '' @ k @ '')'')"

fun map_items :: "(js \<Rightarrow> thrown + js) \<Rightarrow> js list \<Rightarrow> thrown + js list" where
  "map_items f [] = Inr []"
| "map_items f (x # xs) =
     (case f x of
        Inl e \<Rightarrow> Inl e
      | Inr y \<Rightarrow> (case map_items f xs of Inl e \<Rightarrow> Inl e | Inr ys \<Rightarrow> Inr (y # ys)))"

text \<open>\<open>v.map(f)\<close>: only an array has a \<open>map\<close> method.\<close>

definition array_map :: "(js \<Rightarrow> thrown + js) \<Rightarrow> js \<Rightarrow> thrown + js" where
  "array_map f v =
     (case v of
        JArr xs \<Rightarrow> (case map_items f xs of Inl e \<Rightarrow> Inl e | Inr ys \<Rightarrow> Inr (JArr ys))
      | _ \<Rightarrow> Inl (type_error ''map is not a function''))"

definition summary_of :: "js \<Rightarrow> js" where
  "summary_of data = JObj
     [(''totalEvents'', js_or (field data ''totalEvents'') (JNum 0)),
      (''totalTokens'', js_or (field data ''totalTokens'') (JNum 0)),
      (''totalCost'', js_or (field data ''totalCost'') (JNum 0)),
      (''totalRevenue'', js_or (field data ''totalRevenue'') (JNum 0)),
      (''totalProfit'', js_or (field data ''totalProfit'') (JNum 0)),
      (''profitMargin'', js_or (field data ''profitMargin'') (JNum 0))]"

definition customer_item :: "js \<Rightarrow> thrown + js" where
  "customer_item customer =
     (if nullish customer then Inl (cannot_read customer ''organizationName'')
      else Inr (JObj
        [(''customerName'', js_or (js_or (field customer ''organizationName'')
                                         (field customer ''customerId'')) (JStr ''Unknown'')),
         (''totalCost'', js_or (field customer ''cost'') (JNum 0)),
         (''eventCount'', js_or (field customer ''events'') (JNum 0))]))"

text \<open>The time-series item of the dashboard page.\<close>

definition Dashboard_series_item :: "js \<Rightarrow> thrown + js" where
  "Dashboard_series_item item =
     (if nullish item then Inl (cannot_read item ''date'')
      else Inr (JObj
        [(''date'', field item ''date''),
         (''events'', js_or (field item ''events'') (JNum 0)),
         (''cost'', js_or (field item ''cost'') (JNum 0)),
         (''revenue'', js_or (field item ''revenue'') (JNum 0))]))"

text \<open>The time-series item of the analytics page, which keeps \<open>profit\<close> too.\<close>

definition Analytics_series_item :: "js \<Rightarrow> thrown + js" where
  "Analytics_series_item item =
     (if nullish item then Inl (cannot_read item ''date'')
      else Inr (JObj
        [(''date'', field item ''date''),
         (''events'', js_or (field item ''events'') (JNum 0)),
         (''cost'', js_or (field item ''cost'') (JNum 0)),
         (''revenue'', js_or (field item ''revenue'') (JNum 0)),
         (''profit'', js_or (field item ''profit'') (JNum 0))]))"

text \<open>\<open>transformedData\<close> of pages/Dashboard.tsx.\<close>

definition Dashboard_transformedData :: "js \<Rightarrow> thrown + js" where
  "Dashboard_transformedData data =
     (if nullish data then Inl (cannot_read data ''totalEvents'')
      else case array_map Dashboard_series_item (js_or (field data ''timeSeriesData'') (JArr [])) of
        Inl e \<Rightarrow> Inl e
      | Inr series \<Rightarrow>
      (case array_map customer_item (js_or (field data ''topCustomers'') (JArr [])) of
        Inl e \<Rightarrow> Inl e
      | Inr customers \<Rightarrow> Inr (JObj
          [(''summary'', summary_of data),
           (''usageByVendor'', js_or (field data ''usageByVendor'') (JObj [])),
           (''usageByModel'', js_or (field data ''usageByModel'') (JObj [])),
           (''usageByApiType'', js_or (field data ''usageByApiType'') (JObj [])),
           (''timeSeriesData'', series),
           (''topCustomers'', customers)])))"

text \<open>\<open>transformedData\<close> of pages/Analytics.tsx.\<close>

definition Analytics_transformedData :: "js \<Rightarrow> thrown + js" where
  "Analytics_transformedData data =
     (if nullish data then Inl (cannot_read data ''totalEvents'')
      else case array_map Analytics_series_item (js_or (field data ''timeSeriesData'') (JArr [])) of
        Inl e \<Rightarrow> Inl e
      | Inr series \<Rightarrow>
      (case array_map customer_item (js_or (field data ''topCustomers'') (JArr [])) of
        Inl e \<Rightarrow> Inl e
      | Inr customers \<Rightarrow> Inr (JObj
          [(''summary'', summary_of data),
           (''usageByVendor'', js_or (field data ''usageByVendor'') (JObj [])),
           (''usageByModel'', js_or (field data ''usageByModel'') (JObj [])),
           (''usageByApiType'', js_or (field data ''usageByApiType'') (JObj [])),
           (''usageByRegion'', js_or (field data ''usageByRegion'') (JObj [])),
           (''usageByEndpoint'', js_or (field data ''usageByEndpoint'') (JObj [])),
           (''usageByUserRole'', js_or (field data ''usageByUserRole'') (JObj [])),
           (''timeSeriesData'', series),
           (''topCustomers'', customers),
           (''growthMetrics'', js_or (field data ''growthMetrics'') (JObj [])),
           (''predictions'', js_or (field data ''predictions'') (JObj [])),
           (''efficiencyMetrics'', js_or (field data ''efficiencyMetrics'') (JObj [])),
           (''seasonality'', js_or (field data ''seasonality'') (JObj [])),
           (''anomalies'', js_or (field data ''anomalies'') (JArr []))])))"


section \<open>Dates (the JavaScript \<open>Date\<close> and the date-fns functions the pages call)\<close>

text \<open>
  A \<open>Date\<close> is its time value: milliseconds since 1970-01-01T00:00Z. The calendar
  fields a page reads are those of local time, which is UTC plus the offset \<open>tz\<close> of
  the browser's time zone, in minutes (so \<open>getTimezoneOffset()\<close> is \<open>- tz\<close>). The
  offset is taken as constant: a zone without daylight saving.
\<close>

type_synonym Date = int

definition msPerDay :: int where
  "msPerDay = 86400000"

text \<open>The day number (days since 1970-01-01) of a proleptic Gregorian date, and back.\<close>

definition days_from_civil :: "int \<Rightarrow> int \<Rightarrow> int \<Rightarrow> int" where
  "days_from_civil y m d =
     (let y' = (if m \<le> 2 then y - 1 else y);
          era = y' div 400;
          yoe = y' - era * 400;
          doy = (153 * (if m > 2 then m - 3 else m + 9) + 2) div 5 + d - 1;
          doe = yoe * 365 + yoe div 4 - yoe div 100 + doy
      in era * 146097 + doe - 719468)"

definition civil_from_days :: "int \<Rightarrow> int \<times> int \<times> int" where
  "civil_from_days z =
     (let z' = z + 719468;
          era = z' div 146097;
          doe = z' - era * 146097;
          yoe = (doe - doe div 1460 + doe div 36524 - doe div 146096) div 365;
          doy = doe - (365 * yoe + yoe div 4 - yoe div 100);
          mp = (5 * doy + 2) div 153;
          d = doy - (153 * mp + 2) div 5 + 1;
          m = (if mp < 10 then mp + 3 else mp - 9)
      in (if m \<le> 2 then yoe + era * 400 + 1 else yoe + era * 400, m, d))"

text \<open>
  \<open>MakeDay(year, month, date)\<close> of the language: \<open>month\<close> counts from 0 and may
  overflow into the next year, \<open>date\<close> may be 0 or negative and then counts back from
  the first of the month.
\<close>

definition MakeDay :: "int \<Rightarrow> int \<Rightarrow> int \<Rightarrow> int" where
  "MakeDay y m0 d = days_from_civil (y + m0 div 12) (m0 mod 12 + 1) 1 + d - 1"

definition local_day :: "int \<Rightarrow> Date \<Rightarrow> int" where
  "local_day tz t = (t + tz * 60000) div msPerDay"

definition local_time :: "int \<Rightarrow> Date \<Rightarrow> int" where
  "local_time tz t = (t + tz * 60000) mod msPerDay"

definition getFullYear :: "int \<Rightarrow> Date \<Rightarrow> int" where
  "getFullYear tz t = fst (civil_from_days (local_day tz t))"

text \<open>\<open>getMonth()\<close> counts from 0.\<close>

definition getMonth :: "int \<Rightarrow> Date \<Rightarrow> int" where
  "getMonth tz t = fst (snd (civil_from_days (local_day tz t))) - 1"

definition getDate :: "int \<Rightarrow> Date \<Rightarrow> int" where
  "getDate tz t = snd (snd (civil_from_days (local_day tz t)))"

text \<open>The time value of a local day number and a local time within the day.\<close>

definition from_local :: "int \<Rightarrow> int \<Rightarrow> int \<Rightarrow> Date" where
  "from_local tz day ms = day * msPerDay + ms - tz * 60000"

text \<open>\<open>subDays(date, n)\<close>: \<open>setDate(getDate() - n)\<close>, the local time of day kept.\<close>

definition subDays :: "int \<Rightarrow> Date \<Rightarrow> int \<Rightarrow> Date" where
  "subDays tz t n =
     from_local tz (MakeDay (getFullYear tz t) (getMonth tz t) (getDate tz t - n)) (local_time tz t)"

text \<open>\<open>startOfMonth\<close>: \<open>setDate(1); setHours(0, 0, 0, 0)\<close>.\<close>

definition startOfMonth :: "int \<Rightarrow> Date \<Rightarrow> Date" where
  "startOfMonth tz t = from_local tz (MakeDay (getFullYear tz t) (getMonth tz t) 1) 0"

text \<open>\<open>endOfMonth\<close>: \<open>setFullYear(year, month + 1, 0); setHours(23, 59, 59, 999)\<close>.\<close>

definition endOfMonth :: "int \<Rightarrow> Date \<Rightarrow> Date" where
  "endOfMonth tz t =
     from_local tz (MakeDay (getFullYear tz t) (getMonth tz t + 1) 0) (msPerDay - 1)"

text \<open>\<open>startOfYear\<close>: \<open>setFullYear(year, 0, 1); setHours(0, 0, 0, 0)\<close>.\<close>

definition startOfYear :: "int \<Rightarrow> Date \<Rightarrow> Date" where
  "startOfYear tz t = from_local tz (MakeDay (getFullYear tz t) 0 1) 0"

text \<open>\<open>endOfYear\<close>: \<open>setFullYear(year + 1, 0, 0); setHours(23, 59, 59, 999)\<close>.\<close>

definition endOfYear :: "int \<Rightarrow> Date \<Rightarrow> Date" where
  "endOfYear tz t = from_local tz (MakeDay (getFullYear tz t + 1) 0 0) (msPerDay - 1)"

text \<open>
  \<open>new Date('2024-01-01')\<close>: a date-only ISO string is parsed as UTC midnight, whatever
  the zone of the browser.
\<close>

definition Date_of_ISO_date :: "int \<Rightarrow> int \<Rightarrow> int \<Rightarrow> Date" where
  "Date_of_ISO_date y m d = days_from_civil y m d * msPerDay"

text \<open>Decimal digits, and \<open>addLeadingZeros\<close> of date-fns.\<close>

definition digit_char :: "nat \<Rightarrow> char" where
  "digit_char n = char_of (48 + n)"

fun decimal :: "nat \<Rightarrow> string" where
  "decimal n = (if n < 10 then [digit_char n] else decimal (n div 10) @ [digit_char (n mod 10)])"

definition addLeadingZeros :: "int \<Rightarrow> nat \<Rightarrow> string" where
  "addLeadingZeros n targetLength =
     (let s = decimal (nat \<bar>n\<bar>)
      in (if n < 0 then ''-'' else []) @ replicate (targetLength - length s) CHR ''0'' @ s)"

text \<open>
  \<open>format(date, 'yyyy-MM-dd')\<close>: the local calendar date; the token \<open>yyyy\<close> prints the
  year of the era (\<open>1 - year\<close> for a year that is not positive).
\<close>

definition format_yyyy_MM_dd :: "int \<Rightarrow> Date \<Rightarrow> string" where
  "format_yyyy_MM_dd tz t =
     (let y = getFullYear tz t
      in addLeadingZeros (if y > 0 then y else 1 - y) 4 @ ''-''
         @ addLeadingZeros (getMonth tz t + 1) 2 @ ''-''
         @ addLeadingZeros (getDate tz t) 2)"


section \<open>Date-range resolution (\<open>calculateDateRange\<close>, the same in both pages)\<close>

text \<open>
  \<open>today\<close> is the \<open>new Date()\<close> of the call. The result is the pair \<open>(start, end)\<close>
  of the returned object.
\<close>

definition calculateDateRange :: "int \<Rightarrow> Date \<Rightarrow> string \<Rightarrow> string \<times> string" where
  "calculateDateRange tz today range' =
     (let (start, end') =
        (if range' = ''7days'' then (subDays tz today 7, today)
         else if range' = ''30days'' then (subDays tz today 30, today)
         else if range' = ''thismonth'' then (startOfMonth tz today, endOfMonth tz today)
         else if range' = ''thisyear'' then (startOfYear tz today, endOfYear tz today)
         else if range' = ''alltime'' then (Date_of_ISO_date 2024 1 1, today)
         else (subDays tz today 30, today))
      in (format_yyyy_MM_dd tz start, format_yyyy_MM_dd tz end'))"


section \<open>Loading analytics (\<open>loadAnalytics\<close> and what the page renders)\<close>

record page_state =
  analyticsData :: "js option"
  loading :: bool
  error :: "string option"
  dateRange :: string
  startDate :: string
  endDate :: string

text \<open>\<open>err.response?.data?.message || err.message || fallback\<close>\<close>

definition failure_message :: "thrown \<Rightarrow> string \<Rightarrow> string" where
  "failure_message err fallback =
     (let rest = (if message err \<noteq> [] then message err else fallback)
      in case response err of
           None \<Rightarrow> rest
         | Some r \<Rightarrow>
             (case data_message r of
                None \<Rightarrow> rest
              | Some m \<Rightarrow> if m \<noteq> [] then m else rest))"

text \<open>
  The body of \<open>loadAnalytics\<close>, which differs between the two pages in the transform
  only. \<open>getAnalytics\<close> is the outcome of \<open>apiService.getAnalytics\<close> for the parameters
  it is given: the payload, or what the call threw.
\<close>

definition loadAnalytics ::
  "(js \<Rightarrow> thrown + js) \<Rightarrow> int \<Rightarrow> Date \<Rightarrow> auth_user option
     \<Rightarrow> (analytics_params \<Rightarrow> thrown + js) \<Rightarrow> page_state \<Rightarrow> page_state" where
  "loadAnalytics transform tz today u getAnalytics st =
     (let st1 = st\<lparr>loading := True, error := None\<rparr>;
          (start, end') = calculateDateRange tz today (dateRange st1);
          st2 = st1\<lparr>startDate := start, endDate := end'\<rparr>;
          outcome = (case getAnalytics (analyticsParams u start end') of
                       Inl err \<Rightarrow> Inl err
                     | Inr data \<Rightarrow> transform data);
          st3 = (case outcome of
                   Inr transformedData \<Rightarrow> st2\<lparr>analyticsData := Some transformedData\<rparr>
                 | Inl err \<Rightarrow>
                     st2\<lparr>error := Some (failure_message err ''Failed to load analytics data'')\<rparr>)
      in st3\<lparr>loading := False\<rparr>)"

definition Dashboard_loadAnalytics ::
  "int \<Rightarrow> Date \<Rightarrow> auth_user option \<Rightarrow> (analytics_params \<Rightarrow> thrown + js)
     \<Rightarrow> page_state \<Rightarrow> page_state" where
  "Dashboard_loadAnalytics = loadAnalytics Dashboard_transformedData"

definition Analytics_loadAnalytics ::
  "int \<Rightarrow> Date \<Rightarrow> auth_user option \<Rightarrow> (analytics_params \<Rightarrow> thrown + js)
     \<Rightarrow> page_state \<Rightarrow> page_state" where
  "Analytics_loadAnalytics = loadAnalytics Analytics_transformedData"

text \<open>
  What the page shows for a state: the three early returns of the component, then the
  charts of the view model.
\<close>

datatype page_view = LoadingView | ErrorAlert string | NoDataView | ChartsView js

definition render :: "page_state \<Rightarrow> page_view" where
  "render st =
     (if loading st then LoadingView
      else case error st of
        Some m \<Rightarrow> if m \<noteq> [] then ErrorAlert m
                  else (case analyticsData st of None \<Rightarrow> NoDataView | Some v \<Rightarrow> ChartsView v)
      | None \<Rightarrow> (case analyticsData st of None \<Rightarrow> NoDataView | Some v \<Rightarrow> ChartsView v))"


section \<open>Category shares (\<open>vendorData\<close>, \<open>modelData\<close>, \<open>apiTypeData\<close> of the dashboard)\<close>

text \<open>
  A JavaScript number is an IEEE 754 binary64 value: a rational, an infinity or
  \<open>NaN\<close>. The two zeros are one value here; they compare equal, and only a division by
  zero could tell them apart (the zero is then read as \<open>+0\<close>).
\<close>

datatype double = Double rat | PlusInfinity | MinusInfinity | NaN

fun bit_length :: "nat \<Rightarrow> nat" where
  "bit_length n = (if n = 0 then 0 else Suc (bit_length (n div 2)))"

declare bit_length.simps [simp del]

definition pow2 :: "int \<Rightarrow> rat" where
  "pow2 e = (if 0 \<le> e then 2 ^ nat e else 1 / 2 ^ nat (- e))"

text \<open>The binary exponent of a rational that is not zero: \<open>2 ^ e \<le> \<bar>q\<bar> < 2 ^ (e + 1)\<close>.\<close>

definition exponent :: "rat \<Rightarrow> int" where
  "exponent q =
     (if 1 \<le> \<bar>q\<bar> then int (bit_length (nat \<lfloor>\<bar>q\<bar>\<rfloor>)) - 1
      else - int (bit_length (nat (\<lceil>1 / \<bar>q\<bar>\<rceil> - 1))))"

definition round_half_even :: "rat \<Rightarrow> int" where
  "round_half_even x =
     (let f = \<lfloor>x\<rfloor>; d = x - of_int f
      in if d < 1 / 2 then f
         else if 1 / 2 < d then f + 1
         else if even f then f else f + 1)"

text \<open>
  Rounding of an exact result to binary64, to nearest with ties to even: 53 significant
  bits, the exponent not below -1022 (subnormal numbers share the smallest quantum), and
  an infinity when the rounded magnitude reaches \<open>2 ^ 1024\<close>.
\<close>

definition fl :: "rat \<Rightarrow> double" where
  "fl q =
     (if q = 0 then Double 0
      else
        let e = max (exponent q) (- 1022);
            n = round_half_even (q / pow2 (e - 52))
        in if 1024 \<le> e \<or> (e = 1023 \<and> 2 ^ 53 \<le> \<bar>n\<bar>)
           then (if 0 < q then PlusInfinity else MinusInfinity)
           else Double (of_int n * pow2 (e - 52)))"

text \<open>\<open>a + b\<close>\<close>

fun double_add :: "double \<Rightarrow> double \<Rightarrow> double" where
  "double_add (Double a) (Double b) = fl (a + b)"
| "double_add NaN y = NaN"
| "double_add x NaN = NaN"
| "double_add PlusInfinity MinusInfinity = NaN"
| "double_add MinusInfinity PlusInfinity = NaN"
| "double_add PlusInfinity y = PlusInfinity"
| "double_add x PlusInfinity = PlusInfinity"
| "double_add MinusInfinity y = MinusInfinity"
| "double_add x MinusInfinity = MinusInfinity"

text \<open>\<open>a / b\<close>: a division by zero does not fault, it gives an infinity or \<open>NaN\<close>.\<close>

fun double_div :: "double \<Rightarrow> double \<Rightarrow> double" where
  "double_div (Double a) (Double b) =
     (if b = 0
      then (if a = 0 then NaN else if 0 < a then PlusInfinity else MinusInfinity)
      else fl (a / b))"
| "double_div NaN y = NaN"
| "double_div x NaN = NaN"
| "double_div (Double a) y = Double 0"
| "double_div PlusInfinity (Double b) = (if 0 \<le> b then PlusInfinity else MinusInfinity)"
| "double_div MinusInfinity (Double b) = (if 0 \<le> b then MinusInfinity else PlusInfinity)"
| "double_div x y = NaN"

text \<open>\<open>a * b\<close>\<close>

fun double_mul :: "double \<Rightarrow> double \<Rightarrow> double" where
  "double_mul (Double a) (Double b) = fl (a * b)"
| "double_mul NaN y = NaN"
| "double_mul x NaN = NaN"
| "double_mul PlusInfinity (Double b) =
     (if b = 0 then NaN else if 0 < b then PlusInfinity else MinusInfinity)"
| "double_mul MinusInfinity (Double b) =
     (if b = 0 then NaN else if 0 < b then MinusInfinity else PlusInfinity)"
| "double_mul (Double a) PlusInfinity =
     (if a = 0 then NaN else if 0 < a then PlusInfinity else MinusInfinity)"
| "double_mul (Double a) MinusInfinity =
     (if a = 0 then NaN else if 0 < a then MinusInfinity else PlusInfinity)"
| "double_mul PlusInfinity PlusInfinity = PlusInfinity"
| "double_mul MinusInfinity MinusInfinity = PlusInfinity"
| "double_mul PlusInfinity MinusInfinity = MinusInfinity"
| "double_mul MinusInfinity PlusInfinity = MinusInfinity"

text \<open>\<open>a > b\<close>: false whenever an operand is \<open>NaN\<close>.\<close>

fun double_gt :: "double \<Rightarrow> double \<Rightarrow> bool" where
  "double_gt (Double a) (Double b) = (b < a)"
| "double_gt NaN y = False"
| "double_gt x NaN = False"
| "double_gt PlusInfinity PlusInfinity = False"
| "double_gt PlusInfinity y = True"
| "double_gt x MinusInfinity = (x \<noteq> MinusInfinity)"
| "double_gt x y = False"

text \<open>
  A \<open>Record<string, number>\<close> is the list of its entries. The three charts compute the
  same expression over \<open>usageByVendor\<close>, \<open>usageByModel\<close> and \<open>usageByApiType\<close>.
\<close>

record chart_datum =
  datum_name :: string
  datum_value :: double

text \<open>\<open>Object.values(m).reduce((a, b) => a + b, 0)\<close>\<close>

definition sum_values :: "(string \<times> double) list \<Rightarrow> double" where
  "sum_values m = foldl (\<lambda>a b. double_add a b) (Double 0) (map snd m)"

text \<open>\<open>value: sum > 0 ? (count / sum) * 100 : 0\<close>\<close>

definition shareData :: "(string \<times> double) list \<Rightarrow> chart_datum list" where
  "shareData m =
     (let total = sum_values m
      in map (\<lambda>(k, count).
            \<lparr>datum_name = k,
             datum_value = (if double_gt total (Double 0)
                            then double_mul (double_div count total) (Double 100)
                            else Double 0)\<rparr>) m)"


section \<open>Populated payloads and the shape of the view model\<close>

fun is_num :: "js \<Rightarrow> bool" where
  "is_num (JNum x) = True"
| "is_num v = False"

fun is_obj :: "js \<Rightarrow> bool" where
  "is_obj (JObj fs) = True"
| "is_obj v = False"

fun is_arr :: "js \<Rightarrow> bool" where
  "is_arr (JArr xs) = True"
| "is_arr v = False"

fun items :: "js \<Rightarrow> js list" where
  "items (JArr xs) = xs"
| "items v = []"

definition populated_series_item :: "js \<Rightarrow> bool" where
  "populated_series_item item \<longleftrightarrow>
     is_obj item \<and> list_all (\<lambda>k. is_num (field item k))
       [''events'', ''tokens'', ''cost'', ''revenue'', ''profit'']"

definition populated_customer :: "js \<Rightarrow> bool" where
  "populated_customer customer \<longleftrightarrow>
     is_obj customer \<and> truthy (field customer ''organizationName'')
     \<and> truthy (field customer ''customerId'')
     \<and> list_all (\<lambda>k. is_num (field customer k))
          [''events'', ''tokens'', ''cost'', ''revenue'', ''profit'', ''profitMargin'']"

text \<open>
  A payload in which every field the pages read is present with a value of its declared
  type (\<open>AnalyticsResponse\<close>).
\<close>

definition fully_populated :: "js \<Rightarrow> bool" where
  "fully_populated data \<longleftrightarrow>
     is_obj data
     \<and> list_all (\<lambda>k. is_num (field data k))
         [''totalEvents'', ''totalTokens'', ''totalCost'', ''totalRevenue'', ''totalProfit'',
          ''profitMargin'']
     \<and> list_all (\<lambda>k. is_obj (field data k))
         [''usageByVendor'', ''usageByModel'', ''usageByApiType'', ''usageByRegion'',
          ''usageByEndpoint'', ''usageByUserRole'', ''growthMetrics'', ''predictions'',
          ''efficiencyMetrics'', ''seasonality'']
     \<and> is_arr (field data ''timeSeriesData'')
     \<and> list_all populated_series_item (items (field data ''timeSeriesData''))
     \<and> is_arr (field data ''topCustomers'')
     \<and> list_all populated_customer (items (field data ''topCustomers''))
     \<and> is_arr (field data ''anomalies'')"

text \<open>
  The payload's own values laid out as the view model, with no default put in: the
  totals under \<open>summary\<close>, the series items cut to the fields a page keeps, the
  customers under their new names.
\<close>

definition summary_shape :: "js \<Rightarrow> js" where
  "summary_shape data = JObj
     (map (\<lambda>k. (k, field data k))
        [''totalEvents'', ''totalTokens'', ''totalCost'', ''totalRevenue'', ''totalProfit'',
         ''profitMargin''])"

definition series_shape :: "string list \<Rightarrow> js \<Rightarrow> js" where
  "series_shape keys item = JObj (map (\<lambda>k. (k, field item k)) keys)"

definition customer_shape :: "js \<Rightarrow> js" where
  "customer_shape customer = JObj
     [(''customerName'', field customer ''organizationName''),
      (''totalCost'', field customer ''cost''),
      (''eventCount'', field customer ''events'')]"

definition Dashboard_shape :: "js \<Rightarrow> js" where
  "Dashboard_shape data = JObj
     ([(''summary'', summary_shape data)]
      @ map (\<lambda>k. (k, field data k)) [''usageByVendor'', ''usageByModel'', ''usageByApiType'']
      @ [(''timeSeriesData'',
            JArr (map (series_shape [''date'', ''events'', ''cost'', ''revenue''])
                    (items (field data ''timeSeriesData'')))),
         (''topCustomers'', JArr (map customer_shape (items (field data ''topCustomers''))))])"

definition Analytics_shape :: "js \<Rightarrow> js" where
  "Analytics_shape data = JObj
     ([(''summary'', summary_shape data)]
      @ map (\<lambda>k. (k, field data k))
          [''usageByVendor'', ''usageByModel'', ''usageByApiType'', ''usageByRegion'',
           ''usageByEndpoint'', ''usageByUserRole'']
      @ [(''timeSeriesData'',
            JArr (map (series_shape [''date'', ''events'', ''cost'', ''revenue'', ''profit''])
                    (items (field data ''timeSeriesData'')))),
         (''topCustomers'', JArr (map customer_shape (items (field data ''topCustomers''))))]
      @ map (\<lambda>k. (k, field data k))
          [''growthMetrics'', ''predictions'', ''efficiencyMetrics'', ''seasonality'',
           ''anomalies''])"

text \<open>A payload with every field of \<open>AnalyticsResponse\<close> filled in.\<close>

definition full_payload :: js where
  "full_payload = JObj
     [(''period'', JStr ''30days''),
      (''startDate'', JStr ''2025-02-13''),
      (''endDate'', JStr ''2025-03-15''),
      (''totalEvents'', JNum 4),
      (''totalTokens'', JNum 1200),
      (''totalCost'', JNum 8),
      (''totalRevenue'', JNum 10),
      (''totalProfit'', JNum 2),
      (''profitMargin'', JNum 20),
      (''usageByVendor'', JObj [(''openai'', JNum 3), (''anthropic'', JNum 1)]),
      (''usageByModel'', JObj [(''gpt-4'', JNum 3), (''claude'', JNum 1)]),
      (''usageByApiType'', JObj [(''chat'', JNum 4)]),
      (''usageByRegion'', JObj [(''eu'', JNum 4)]),
      (''usageByEndpoint'', JObj [(''/v1/chat'', JNum 4)]),
      (''usageByUserRole'', JObj [(''USER'', JNum 4)]),
      (''costByVendor'', JObj [(''openai'', JNum 6), (''anthropic'', JNum 2)]),
      (''costByModel'', JObj [(''gpt-4'', JNum 6), (''claude'', JNum 2)]),
      (''costByApiType'', JObj [(''chat'', JNum 8)]),
      (''timeSeriesData'', JArr
         [JObj [(''date'', JStr ''2025-03-14''), (''events'', JNum 4), (''tokens'', JNum 1200),
                (''cost'', JNum 8), (''revenue'', JNum 10), (''profit'', JNum 2)]]),
      (''topCustomers'', JArr
         [JObj [(''customerId'', JStr ''acme''), (''organizationName'', JStr ''Acme Corp''),
                (''events'', JNum 4), (''tokens'', JNum 1200), (''cost'', JNum 8),
                (''revenue'', JNum 10), (''profit'', JNum 2), (''profitMargin'', JNum 20)]]),
      (''topUsers'', JArr
         [JObj [(''userId'', JStr ''u1''), (''fullName'', JStr ''Ada Lovelace''),
                (''email'', JStr ''ada@acme.test''), (''customerId'', JStr ''acme''),
                (''events'', JNum 4), (''tokens'', JNum 1200), (''cost'', JNum 8),
                (''revenue'', JNum 10), (''profit'', JNum 2)]]),
      (''growthMetrics'', JObj
         [(''eventsGrowth'', JNum 1), (''tokensGrowth'', JNum 1), (''costGrowth'', JNum 1),
          (''revenueGrowth'', JNum 1), (''profitGrowth'', JNum 1),
          (''comparisonPeriod'', JStr ''previous'')]),
      (''predictions'', JObj
         [(''predictedEvents'', JNum 5), (''predictedTokens'', JNum 1500),
          (''predictedCost'', JNum 10), (''predictedRevenue'', JNum 12),
          (''predictedProfit'', JNum 2)]),
      (''efficiencyMetrics'', JObj
         [(''costPerEvent'', JNum 2), (''revenuePerEvent'', JNum 3), (''profitPerEvent'', JNum 1),
          (''costPerToken'', JNum 1), (''revenuePerToken'', JNum 1), (''profitPerToken'', JNum 1)]),
      (''seasonality'', JObj
         [(''weeklyPattern'', JObj [(''MONDAY'', JNum 4)]),
          (''monthlyPattern'', JObj [(''MARCH'', JNum 4)])]),
      (''anomalies'', JArr
         [JObj [(''date'', JStr ''2025-03-14''), (''type'', JStr ''spike''),
                (''metric'', JStr ''cost''), (''description'', JStr ''cost spike'')]])]"

text \<open>The view model the analytics page builds from it.\<close>

definition full_view :: js where
  "full_view = JObj
     [(''summary'', JObj
         [(''totalEvents'', JNum 4), (''totalTokens'', JNum 1200), (''totalCost'', JNum 8),
          (''totalRevenue'', JNum 10), (''totalProfit'', JNum 2), (''profitMargin'', JNum 20)]),
      (''usageByVendor'', JObj [(''openai'', JNum 3), (''anthropic'', JNum 1)]),
      (''usageByModel'', JObj [(''gpt-4'', JNum 3), (''claude'', JNum 1)]),
      (''usageByApiType'', JObj [(''chat'', JNum 4)]),
      (''usageByRegion'', JObj [(''eu'', JNum 4)]),
      (''usageByEndpoint'', JObj [(''/v1/chat'', JNum 4)]),
      (''usageByUserRole'', JObj [(''USER'', JNum 4)]),
      (''timeSeriesData'', JArr
         [JObj [(''date'', JStr ''2025-03-14''), (''events'', JNum 4), (''cost'', JNum 8),
                (''revenue'', JNum 10), (''profit'', JNum 2)]]),
      (''topCustomers'', JArr
         [JObj [(''customerName'', JStr ''Acme Corp''), (''totalCost'', JNum 8),
                (''eventCount'', JNum 4)]]),
      (''growthMetrics'', JObj
         [(''eventsGrowth'', JNum 1), (''tokensGrowth'', JNum 1), (''costGrowth'', JNum 1),
          (''revenueGrowth'', JNum 1), (''profitGrowth'', JNum 1),
          (''comparisonPeriod'', JStr ''previous'')]),
      (''predictions'', JObj
         [(''predictedEvents'', JNum 5), (''predictedTokens'', JNum 1500),
          (''predictedCost'', JNum 10), (''predictedRevenue'', JNum 12),
          (''predictedProfit'', JNum 2)]),
      (''efficiencyMetrics'', JObj
         [(''costPerEvent'', JNum 2), (''revenuePerEvent'', JNum 3), (''profitPerEvent'', JNum 1),
          (''costPerToken'', JNum 1), (''revenuePerToken'', JNum 1), (''profitPerToken'', JNum 1)]),
      (''seasonality'', JObj
         [(''weeklyPattern'', JObj [(''MONDAY'', JNum 4)]),
          (''monthlyPattern'', JObj [(''MARCH'', JNum 4)])]),
      (''anomalies'', JArr
         [JObj [(''date'', JStr ''2025-03-14''), (''type'', JStr ''spike''),
                (''metric'', JStr ''cost''), (''description'', JStr ''cost spike'')]])]"

text \<open>The view model of the empty payload, for each page.\<close>

definition zero_summary :: js where
  "zero_summary = JObj
     [(''totalEvents'', JNum 0), (''totalTokens'', JNum 0), (''totalCost'', JNum 0),
      (''totalRevenue'', JNum 0), (''totalProfit'', JNum 0), (''profitMargin'', JNum 0)]"

definition Dashboard_empty_view :: js where
  "Dashboard_empty_view = JObj
     [(''summary'', zero_summary),
      (''usageByVendor'', JObj []), (''usageByModel'', JObj []), (''usageByApiType'', JObj []),
      (''timeSeriesData'', JArr []), (''topCustomers'', JArr [])]"

definition Analytics_empty_view :: js where
  "Analytics_empty_view = JObj
     [(''summary'', zero_summary),
      (''usageByVendor'', JObj []), (''usageByModel'', JObj []), (''usageByApiType'', JObj []),
      (''usageByRegion'', JObj []), (''usageByEndpoint'', JObj []),
      (''usageByUserRole'', JObj []),
      (''timeSeriesData'', JArr []), (''topCustomers'', JArr []),
      (''growthMetrics'', JObj []), (''predictions'', JObj []),
      (''efficiencyMetrics'', JObj []), (''seasonality'', JObj []), (''anomalies'', JArr [])]"


section \<open>The request gateway attaches and withdraws the credential\<close>

text \<open>
  C4. Every request the gateway sends carries \<open>Authorization: Bearer <token>\<close> when a
  session is present, which the interceptor reads as a non-empty \<open>token\<close> entry of the
  store, and carries no \<open>Authorization\<close> header otherwise.
\<close>

theorem request_interceptor_bearer:
  "(\<forall>token. getItem b ''token'' = Some token \<and> token \<noteq> [] \<longrightarrow>
      headers (request_interceptor b (api_config m u ps)) ''Authorization''
        = Some (''Bearer '' @ token))
   \<and> (getItem b ''token'' = None \<or> getItem b ''token'' = Some [] \<longrightarrow>
      headers (request_interceptor b (api_config m u ps)) ''Authorization'' = None)"
  by (auto simp: request_interceptor_def api_config_def)

theorem request_interceptor_bearer_witness:
  "headers (request_interceptor
      \<lparr>localStorage = [''token'' \<mapsto> ''abc'', ''user'' \<mapsto> ''{}''], location_href = ''/''\<rparr>
      (api_config ''get'' ''/api/events'' [])) ''Authorization'' = Some ''Bearer abc''
   \<and> headers (request_interceptor \<lparr>localStorage = Map.empty, location_href = ''/''\<rparr>
      (api_config ''get'' ''/api/events'' [])) ''Authorization'' = None"
  using
    request_interceptor_bearer
      [of "\<lparr>localStorage = [''token'' \<mapsto> ''abc'', ''user'' \<mapsto> ''{}''], location_href = ''/''\<rparr>"
          "''get''" "''/api/events''" "[]"]
    request_interceptor_bearer
      [of "\<lparr>localStorage = Map.empty, location_href = ''/''\<rparr>" "''get''" "''/api/events''" "[]"]
  by (simp add: getItem_def)

text \<open>
  C2. An error whose response has status 401 makes the response interceptor remove
  \<open>token\<close> and \<open>user\<close> from the store and send the browser to \<open>/login\<close>, and the
  caller still gets the same error as a rejection. Any other error, and any response
  that is not an error, passes through with the browser state untouched.
\<close>

theorem response_interceptor_401:
  "(\<forall>r. response e = Some r \<and> status r = 401 \<longrightarrow>
      getItem (fst (response_interceptor b (Rejected e))) ''token'' = None
    \<and> getItem (fst (response_interceptor b (Rejected e))) ''user'' = None
    \<and> location_href (fst (response_interceptor b (Rejected e))) = ''/login''
    \<and> snd (response_interceptor b (Rejected e)) = Rejected e)
   \<and> ((\<forall>r. response e = Some r \<longrightarrow> status r \<noteq> 401) \<longrightarrow>
        response_interceptor b (Rejected e) = (b, Rejected e))
   \<and> response_interceptor b (Fulfilled r') = (b, Fulfilled r')"
  by (auto simp: on_rejected_def status_is_401_def removeItem_def getItem_def
      split: option.splits)

theorem response_interceptor_401_witness:
  "getItem (fst (response_interceptor
      \<lparr>localStorage = [''token'' \<mapsto> ''abc'', ''user'' \<mapsto> ''{}''], location_href = ''/analytics''\<rparr>
      (Rejected \<lparr>response = Some \<lparr>status = 401, data_message = None\<rparr>,
                 message = ''Request failed with status code 401''\<rparr>))) ''token'' = None
   \<and> location_href (fst (response_interceptor
      \<lparr>localStorage = [''token'' \<mapsto> ''abc'', ''user'' \<mapsto> ''{}''], location_href = ''/analytics''\<rparr>
      (Rejected \<lparr>response = Some \<lparr>status = 401, data_message = None\<rparr>,
                 message = ''Request failed with status code 401''\<rparr>))) = ''/login''
   \<and> response_interceptor
      \<lparr>localStorage = [''token'' \<mapsto> ''abc'', ''user'' \<mapsto> ''{}''], location_href = ''/analytics''\<rparr>
      (Rejected \<lparr>response = Some \<lparr>status = 500, data_message = None\<rparr>,
                 message = ''Request failed with status code 500''\<rparr>)
     = (\<lparr>localStorage = [''token'' \<mapsto> ''abc'', ''user'' \<mapsto> ''{}''], location_href = ''/analytics''\<rparr>,
        Rejected \<lparr>response = Some \<lparr>status = 500, data_message = None\<rparr>,
                  message = ''Request failed with status code 500''\<rparr>)"
  using
    response_interceptor_401
      [of "\<lparr>response = Some \<lparr>status = 401, data_message = None\<rparr>,
            message = ''Request failed with status code 401''\<rparr>"
          "\<lparr>localStorage = [''token'' \<mapsto> ''abc'', ''user'' \<mapsto> ''{}''], location_href = ''/analytics''\<rparr>"]
    response_interceptor_401
      [of "\<lparr>response = Some \<lparr>status = 500, data_message = None\<rparr>,
            message = ''Request failed with status code 500''\<rparr>"
          "\<lparr>localStorage = [''token'' \<mapsto> ''abc'', ''user'' \<mapsto> ''{}''], location_href = ''/analytics''\<rparr>"]
  by simp


section \<open>The access gate\<close>

text \<open>
  C3. The gate's decision for every state of the auth context, role and requirement.
  The context is initializing while \<open>isLoading\<close> holds, and afterwards authenticated
  or not by \<open>isAuthenticated\<close>; the requirement is the pair of flags \<open>requireAdmin\<close>
  and \<open>requireSuperAdmin\<close>. While initializing the gate shows the progress indicator;
  unauthenticated, whatever the requirement, it navigates to \<open>/login\<close> and remembers
  the location; a USER on a route that requires an admin and an ADMIN on a route that
  requires a superadmin are sent to \<open>/\<close>; a SUPERADMIN is admitted whatever the
  requirement.
\<close>

theorem ProtectedRoute_decisions:
  "(isLoading ctx \<longrightarrow> ProtectedRoute ctx loc ra rs ch = CircularProgress)
   \<and> (\<not> isLoading ctx \<and> \<not> isAuthenticated ctx \<longrightarrow>
        ProtectedRoute ctx loc ra rs ch = Navigate ''/login'' (Some loc))
   \<and> (\<not> isLoading ctx \<and> isAuthenticated ctx \<and> user_role ctx = Some ''USER'' \<longrightarrow>
        ProtectedRoute ctx loc True rs ch = Navigate ''/'' None)
   \<and> (\<not> isLoading ctx \<and> isAuthenticated ctx \<and> user_role ctx = Some ''ADMIN'' \<longrightarrow>
        ProtectedRoute ctx loc ra True ch = Navigate ''/'' None)
   \<and> (\<not> isLoading ctx \<and> isAuthenticated ctx \<and> user_role ctx = Some ''SUPERADMIN'' \<longrightarrow>
        ProtectedRoute ctx loc ra rs ch = Children ch)"
  by (simp add: ProtectedRoute_def)

theorem ProtectedRoute_decisions_witness:
  "ProtectedRoute \<lparr>isAuthenticated = False, isLoading = True, user = None\<rparr>
      ''/users'' True False ''Users'' = CircularProgress
   \<and> ProtectedRoute \<lparr>isAuthenticated = False, isLoading = False, user = None\<rparr>
      ''/users'' True False ''Users'' = Navigate ''/login'' (Some ''/users'')
   \<and> ProtectedRoute
      \<lparr>isAuthenticated = True, isLoading = False,
       user = Some \<lparr>role = ''USER'', customerId = Some ''acme''\<rparr>\<rparr>
      ''/users'' True False ''Users'' = Navigate ''/'' None
   \<and> ProtectedRoute
      \<lparr>isAuthenticated = True, isLoading = False,
       user = Some \<lparr>role = ''ADMIN'', customerId = Some ''acme''\<rparr>\<rparr>
      ''/customers'' False True ''Customers'' = Navigate ''/'' None
   \<and> ProtectedRoute
      \<lparr>isAuthenticated = True, isLoading = False,
       user = Some \<lparr>role = ''SUPERADMIN'', customerId = None\<rparr>\<rparr>
      ''/customers'' False True ''Customers'' = Children ''Customers''"
  using
    ProtectedRoute_decisions
      [of "\<lparr>isAuthenticated = False, isLoading = True, user = None\<rparr>"
          "''/users''" True False "''Users''"]
    ProtectedRoute_decisions
      [of "\<lparr>isAuthenticated = False, isLoading = False, user = None\<rparr>"
          "''/users''" True False "''Users''"]
    ProtectedRoute_decisions
      [of "\<lparr>isAuthenticated = True, isLoading = False,
            user = Some \<lparr>role = ''USER'', customerId = Some ''acme''\<rparr>\<rparr>"
          "''/users''" False False "''Users''"]
    ProtectedRoute_decisions
      [of "\<lparr>isAuthenticated = True, isLoading = False,
            user = Some \<lparr>role = ''ADMIN'', customerId = Some ''acme''\<rparr>\<rparr>"
          "''/customers''" False False "''Customers''"]
    ProtectedRoute_decisions
      [of "\<lparr>isAuthenticated = True, isLoading = False,
            user = Some \<lparr>role = ''SUPERADMIN'', customerId = None\<rparr>\<rparr>"
          "''/customers''" False True "''Customers''"]
  by (simp add: user_role_def)


section \<open>Tenant scoping of the queries\<close>

text \<open>
  C1, as the pages have it. A session whose role is not SUPERADMIN and whose
  \<open>customerId\<close> is a non-empty string gets that \<open>customerId\<close> put into every analytics
  and events query, over whatever the events filter holds. A session with no
  \<open>customerId\<close>, or an empty one, leaves the query as built: the analytics query has
  no \<open>customerId\<close> and the events query keeps the filter's.
\<close>

theorem tenant_forced:
  "(role u \<noteq> ''SUPERADMIN'' \<and> customerId u = Some c \<and> c \<noteq> [] \<longrightarrow>
      ap_customerId (analyticsParams (Some u) s e) = Some c
    \<and> ep_customerId (eventsParams (Some u) fs p n) = c)
   \<and> (customerId u = None \<or> customerId u = Some [] \<longrightarrow>
      ap_customerId (analyticsParams (Some u) s e) = None
    \<and> ep_customerId (eventsParams (Some u) fs p n) = f_customerId fs)"
  by (auto simp: analyticsParams_def eventsParams_def forced_tenant_def)

theorem tenant_forced_witness:
  "ap_customerId (analyticsParams (Some \<lparr>role = ''USER'', customerId = Some ''acme''\<rparr>)
        ''2025-02-13'' ''2025-03-15'') = Some ''acme''
   \<and> ep_customerId (eventsParams (Some \<lparr>role = ''USER'', customerId = Some ''acme''\<rparr>)
        \<lparr>f_customerId = ''globex'', f_userId = [], f_vendor = [], f_model = [], f_apiType = []\<rparr>
        0 10) = ''acme''
   \<and> ep_customerId (eventsParams (Some \<lparr>role = ''USER'', customerId = None\<rparr>)
        \<lparr>f_customerId = ''globex'', f_userId = [], f_vendor = [], f_model = [], f_apiType = []\<rparr>
        0 10) = ''globex''"
  using
    tenant_forced
      [of "\<lparr>role = ''USER'', customerId = Some ''acme''\<rparr>" "''acme''"
          "''2025-02-13''" "''2025-03-15''"
          "\<lparr>f_customerId = ''globex'', f_userId = [], f_vendor = [], f_model = [], f_apiType = []\<rparr>"
          0 10]
    tenant_forced
      [of "\<lparr>role = ''USER'', customerId = None\<rparr>" "''acme''"
          "''2025-02-13''" "''2025-03-15''"
          "\<lparr>f_customerId = ''globex'', f_userId = [], f_vendor = [], f_model = [], f_apiType = []\<rparr>"
          0 10]
  by simp

text \<open>
  C1 as stated fails: a USER session whose \<open>customerId\<close> is the empty string sends the
  events query with the tenant typed into the filter, and the analytics query with no
  tenant at all.
\<close>

theorem tenant_not_forced_counterexample:
  "role \<lparr>role = ''USER'', customerId = Some []\<rparr> \<noteq> ''SUPERADMIN''
   \<and> Some (ep_customerId (eventsParams (Some \<lparr>role = ''USER'', customerId = Some []\<rparr>)
        \<lparr>f_customerId = ''globex'', f_userId = [], f_vendor = [], f_model = [], f_apiType = []\<rparr>
        0 10))
      \<noteq> customerId \<lparr>role = ''USER'', customerId = Some []\<rparr>
   \<and> ap_customerId (analyticsParams (Some \<lparr>role = ''USER'', customerId = Some []\<rparr>)
        ''2025-02-13'' ''2025-03-15'')
      \<noteq> customerId \<lparr>role = ''USER'', customerId = Some []\<rparr>"
  by (simp add: analyticsParams_def eventsParams_def forced_tenant_def)


section \<open>Defaults of the normalizer\<close>

text \<open>
  C5. The empty payload \<open>{}\<close> normalizes, on both pages, to a view model with every
  total 0, every mapping the empty object, every sequence the empty array and every
  field present; the nested objects of the analytics page (growth metrics, predictions,
  efficiency metrics, seasonality) are empty objects and the anomalies an empty array.
\<close>

theorem empty_payload_defaults:
  "Dashboard_transformedData (JObj []) = Inr Dashboard_empty_view
   \<and> Analytics_transformedData (JObj []) = Inr Analytics_empty_view"
  by (simp add: Dashboard_transformedData_def Analytics_transformedData_def
      Dashboard_empty_view_def Analytics_empty_view_def zero_summary_def
      summary_of_def array_map_def js_or_def)


section \<open>Category shares\<close>

text \<open>Known binary64 roundings, and what the guard on the total keeps from the charts.\<close>

lemma fl_examples:
  "fl (1 / 3) = Double (6004799503160661 / 18014398509481984)"
  "fl (1 / 10) = Double (3602879701896397 / 36028797018963968)"
  "fl (3 / 4) = Double (3 / 4)"
  by code_simp+

lemma sum_values_examples:
  "sum_values [(''A'', Double 0), (''B'', Double 0)] = Double 0"
  "sum_values [(''A'', Double 3), (''B'', Double 1)] = Double 4"
  "sum_values [(''A'', Double 1), (''B'', Double 2)] = Double 3"
  "sum_values [(''A'', Double (- 1))] = Double (- 1)"
  by code_simp+

lemma division_by_zero_is_not_a_number:
  "double_div (Double 0) (Double 0) = NaN"
  "double_mul NaN (Double 100) = NaN"
  by simp_all

text \<open>
  C6, as the dashboard has it. When the total of the counts is not greater than zero,
  and so when it is zero, every share is 0. When it is greater
  than zero the share of a category is the binary64 product of the binary64 quotient
  \<open>count / total\<close> with 100. Counts \<open>{A: 3, B: 1}\<close> give shares 75 and 25, counts
  \<open>{A: 0, B: 0}\<close> give 0 and 0.
\<close>

theorem shareData_shares:
  "(\<not> double_gt (sum_values m) (Double 0) \<longrightarrow>
      shareData m = map (\<lambda>(k, c). \<lparr>datum_name = k, datum_value = Double 0\<rparr>) m)
   \<and> (sum_values m = Double 0 \<longrightarrow>
      shareData m = map (\<lambda>(k, c). \<lparr>datum_name = k, datum_value = Double 0\<rparr>) m)
   \<and> (double_gt (sum_values m) (Double 0) \<longrightarrow>
        shareData m =
          map (\<lambda>(k, c). \<lparr>datum_name = k,
                 datum_value = double_mul (double_div c (sum_values m)) (Double 100)\<rparr>) m)
   \<and> shareData [(''A'', Double 3), (''B'', Double 1)]
        = [\<lparr>datum_name = ''A'', datum_value = Double 75\<rparr>,
           \<lparr>datum_name = ''B'', datum_value = Double 25\<rparr>]
   \<and> shareData [(''A'', Double 0), (''B'', Double 0)]
        = [\<lparr>datum_name = ''A'', datum_value = Double 0\<rparr>,
           \<lparr>datum_name = ''B'', datum_value = Double 0\<rparr>]"
proof (intro conjI impI)
  assume "\<not> double_gt (sum_values m) (Double 0)"
  then show "shareData m = map (\<lambda>(k, c). \<lparr>datum_name = k, datum_value = Double 0\<rparr>) m"
    by (simp add: shareData_def)
next
  assume "sum_values m = Double 0"
  then show "shareData m = map (\<lambda>(k, c). \<lparr>datum_name = k, datum_value = Double 0\<rparr>) m"
    by (simp add: shareData_def)
next
  assume "double_gt (sum_values m) (Double 0)"
  then show "shareData m =
      map (\<lambda>(k, c). \<lparr>datum_name = k,
             datum_value = double_mul (double_div c (sum_values m)) (Double 100)\<rparr>) m"
    by (simp add: shareData_def)
next
  show "shareData [(''A'', Double 3), (''B'', Double 1)]
        = [\<lparr>datum_name = ''A'', datum_value = Double 75\<rparr>,
           \<lparr>datum_name = ''B'', datum_value = Double 25\<rparr>]"
    by code_simp
next
  show "shareData [(''A'', Double 0), (''B'', Double 0)]
        = [\<lparr>datum_name = ''A'', datum_value = Double 0\<rparr>,
           \<lparr>datum_name = ''B'', datum_value = Double 0\<rparr>]"
    by code_simp
qed

theorem shareData_shares_witness:
  "sum_values [(''A'', Double 0), (''B'', Double 0)] = Double 0
   \<and> shareData [(''A'', Double 0), (''B'', Double 0)]
        = [\<lparr>datum_name = ''A'', datum_value = Double 0\<rparr>,
           \<lparr>datum_name = ''B'', datum_value = Double 0\<rparr>]
   \<and> \<not> double_gt (sum_values [(''A'', Double (- 1))]) (Double 0)
   \<and> shareData [(''A'', Double (- 1))] = [\<lparr>datum_name = ''A'', datum_value = Double 0\<rparr>]
   \<and> double_gt (sum_values [(''A'', Double 3), (''B'', Double 1)]) (Double 0)
   \<and> shareData [(''A'', Double 3), (''B'', Double 1)]
        = [\<lparr>datum_name = ''A'',
             datum_value = double_mul (double_div (Double 3) (Double 4)) (Double 100)\<rparr>,
           \<lparr>datum_name = ''B'',
             datum_value = double_mul (double_div (Double 1) (Double 4)) (Double 100)\<rparr>]"
  using shareData_shares [of "[(''A'', Double 0), (''B'', Double 0)]"]
    shareData_shares [of "[(''A'', Double (- 1))]"]
    shareData_shares [of "[(''A'', Double 3), (''B'', Double 1)]"]
  by (simp add: sum_values_examples)

text \<open>
  C6 as stated fails: a total that is not zero but negative gives share 0, not
  \<open>100 * count / total\<close>; and counts \<open>{A: 1, B: 2}\<close> give A the share
  33.33333333333333, which is neither the exact \<open>100 / 3\<close> nor its binary64 rounding
  33.333333333333336.
\<close>

theorem shareData_exact_share_counterexample:
  "sum_values [(''A'', Double (- 1))] = Double (- 1)
   \<and> Double (- 1) \<noteq> Double 0
   \<and> shareData [(''A'', Double (- 1))] = [\<lparr>datum_name = ''A'', datum_value = Double 0\<rparr>]
   \<and> Double 0 \<noteq> Double (100 * (- 1) / (- 1))
   \<and> sum_values [(''A'', Double 1), (''B'', Double 2)] = Double 3
   \<and> shareData [(''A'', Double 1), (''B'', Double 2)]
        = [\<lparr>datum_name = ''A'', datum_value = Double (2345624805922133 / 70368744177664)\<rparr>,
           \<lparr>datum_name = ''B'', datum_value = Double (2345624805922133 / 35184372088832)\<rparr>]
   \<and> Double (2345624805922133 / 70368744177664) \<noteq> Double (100 * 1 / 3)
   \<and> Double (2345624805922133 / 70368744177664) \<noteq> fl (100 * 1 / 3)"
proof -
  have "shareData [(''A'', Double (- 1))] = [\<lparr>datum_name = ''A'', datum_value = Double 0\<rparr>]"
    by code_simp
  moreover have "shareData [(''A'', Double 1), (''B'', Double 2)]
        = [\<lparr>datum_name = ''A'', datum_value = Double (2345624805922133 / 70368744177664)\<rparr>,
           \<lparr>datum_name = ''B'', datum_value = Double (2345624805922133 / 35184372088832)\<rparr>]"
    by code_simp
  moreover have "fl (100 * 1 / 3) = Double (4691249611844267 / 140737488355328)"
    by code_simp
  ultimately show ?thesis
    by (simp add: sum_values_examples)
qed



section \<open>A failed fetch\<close>

text \<open>
  C8. When the analytics request fails, on either page, \<open>loadAnalytics\<close> leaves the
  stored view model as it was, and the page shows the failure as an error alert whose
  text is not empty.
\<close>

theorem failed_fetch_keeps_view_model:
  assumes "getAnalytics (analyticsParams u (fst (calculateDateRange tz today (dateRange st)))
                                        (snd (calculateDateRange tz today (dateRange st)))) = Inl err"
  shows "analyticsData (Dashboard_loadAnalytics tz today u getAnalytics st) = analyticsData st
       \<and> analyticsData (Analytics_loadAnalytics tz today u getAnalytics st) = analyticsData st
       \<and> render (Dashboard_loadAnalytics tz today u getAnalytics st)
           = ErrorAlert (failure_message err ''Failed to load analytics data'')
       \<and> render (Analytics_loadAnalytics tz today u getAnalytics st)
           = ErrorAlert (failure_message err ''Failed to load analytics data'')
       \<and> failure_message err ''Failed to load analytics data'' \<noteq> []"
proof -
  obtain start end' where r: "calculateDateRange tz today (dateRange st) = (start, end')"
    by (cases "calculateDateRange tz today (dateRange st)")
  have g: "getAnalytics (analyticsParams u start end') = Inl err"
    using assms r by simp
  have m: "failure_message err ''Failed to load analytics data'' \<noteq> []"
    by (simp add: failure_message_def Let_def split: option.splits)
  show ?thesis
    using m
    by (simp add: Dashboard_loadAnalytics_def Analytics_loadAnalytics_def loadAnalytics_def
        render_def Let_def r g)
qed

theorem failed_fetch_keeps_view_model_witness:
  "analyticsData (Dashboard_loadAnalytics 0 1742040000000 None
      (\<lambda>p. Inl \<lparr>response = None, message = ''Network Error''\<rparr>)
      \<lparr>analyticsData = Some Dashboard_empty_view, loading = False, error = None,
       dateRange = ''30days'', startDate = ''2025-02-12'', endDate = ''2025-03-14''\<rparr>)
     = Some Dashboard_empty_view
   \<and> render (Dashboard_loadAnalytics 0 1742040000000 None
      (\<lambda>p. Inl \<lparr>response = None, message = ''Network Error''\<rparr>)
      \<lparr>analyticsData = Some Dashboard_empty_view, loading = False, error = None,
       dateRange = ''30days'', startDate = ''2025-02-12'', endDate = ''2025-03-14''\<rparr>)
     = ErrorAlert ''Network Error''"
  using failed_fetch_keeps_view_model
    [of "\<lambda>p. Inl \<lparr>response = None, message = ''Network Error''\<rparr>" None 0 1742040000000
        "\<lparr>analyticsData = Some Dashboard_empty_view, loading = False, error = None,
          dateRange = ''30days'', startDate = ''2025-02-12'', endDate = ''2025-03-14''\<rparr>"
        "\<lparr>response = None, message = ''Network Error''\<rparr>"]
  by (simp add: failure_message_def)


section \<open>Date-range resolution\<close>

text \<open>The formatted date depends on the local day number only.\<close>

lemma local_day_from_local:
  "0 \<le> ms \<Longrightarrow> ms < msPerDay \<Longrightarrow> local_day tz (from_local tz d ms) = d"
  by (simp add: local_day_def from_local_def msPerDay_def)

lemma local_time_bounds: "0 \<le> local_time tz t \<and> local_time tz t < msPerDay"
  by (simp add: local_time_def msPerDay_def)

lemma format_by_local_day:
  "local_day tz t = d \<Longrightarrow> format_yyyy_MM_dd tz t = format_yyyy_MM_dd 0 (d * msPerDay)"
  by (simp add: format_yyyy_MM_dd_def getFullYear_def getMonth_def getDate_def)
     (simp add: local_day_def msPerDay_def)

lemma format_from_local:
  "0 \<le> ms \<Longrightarrow> ms < msPerDay \<Longrightarrow>
   format_yyyy_MM_dd tz (from_local tz d ms) = format_yyyy_MM_dd 0 (d * msPerDay)"
  by (rule format_by_local_day) (rule local_day_from_local)

lemma civil_2025_03_15: "civil_from_days 20162 = (2025, 3, 15)"
  by code_simp

lemma MakeDay_2025_03:
  "MakeDay 2025 2 1 = 20148" "MakeDay 2025 3 0 = 20178" "MakeDay 2025 2 8 = 20155"
  by code_simp+

lemma formatted_days:
  "format_yyyy_MM_dd 0 (20148 * msPerDay) = ''2025-03-01''"
  "format_yyyy_MM_dd 0 (20178 * msPerDay) = ''2025-03-31''"
  "format_yyyy_MM_dd 0 (20155 * msPerDay) = ''2025-03-08''"
  "format_yyyy_MM_dd 0 (20162 * msPerDay) = ''2025-03-15''"
  "format_yyyy_MM_dd 0 (19723 * msPerDay) = ''2024-01-01''"
  "format_yyyy_MM_dd 0 (19722 * msPerDay) = ''2023-12-31''"
  by code_simp+

text \<open>
  On any instant of the local day 2025-03-15, in any zone, \<open>thismonth\<close> and \<open>7days\<close>
  resolve to the documented dates.
\<close>

lemma on_2025_03_15:
  assumes "local_day tz today = 20162"
  shows "calculateDateRange tz today ''thismonth'' = (''2025-03-01'', ''2025-03-31'')"
    and "calculateDateRange tz today ''7days'' = (''2025-03-08'', ''2025-03-15'')"
proof -
  have y: "getFullYear tz today = 2025" and m: "getMonth tz today = 2"
    and d: "getDate tz today = 15"
    using assms by (simp_all add: getFullYear_def getMonth_def getDate_def civil_2025_03_15)
  have e: "(0::int) \<le> msPerDay - 1 \<and> msPerDay - 1 < msPerDay"
    by (simp add: msPerDay_def)
  show "calculateDateRange tz today ''thismonth'' = (''2025-03-01'', ''2025-03-31'')"
    using e by (simp add: calculateDateRange_def startOfMonth_def endOfMonth_def y m
        MakeDay_2025_03 format_from_local formatted_days)
  show "calculateDateRange tz today ''7days'' = (''2025-03-08'', ''2025-03-15'')"
    using local_time_bounds [of tz today]
    by (simp add: calculateDateRange_def subDays_def y m d MakeDay_2025_03
        format_from_local formatted_days format_by_local_day [OF assms])
qed

text \<open>
  The start of \<open>alltime\<close> is the local date of 2024-01-01T00:00Z: 2024-01-01 in a zone
  at or east of UTC, the day before in a zone west of it.
\<close>

lemma floor_day_number: "days_from_civil 2024 1 1 = 19723"
  by code_simp

lemma floor_day_east:
  assumes "0 \<le> tz" and "tz < 1440"
  shows "fst (calculateDateRange tz today ''alltime'') = ''2024-01-01''"
proof -
  have "(19723 * 86400000 + tz * 60000) div 86400000 = 19723"
    using assms by (intro int_div_pos_eq [where r = "tz * 60000"]) simp_all
  then have "local_day tz (Date_of_ISO_date 2024 1 1) = 19723"
    by (simp add: local_day_def Date_of_ISO_date_def msPerDay_def floor_day_number)
  from format_by_local_day [OF this] show ?thesis
    by (simp add: calculateDateRange_def formatted_days)
qed

lemma floor_day_west:
  assumes "- 1440 \<le> tz" and "tz < 0"
  shows "fst (calculateDateRange tz today ''alltime'') = ''2023-12-31''"
proof -
  have "(19723 * 86400000 + tz * 60000) div 86400000 = 19722"
    using assms by (intro int_div_pos_eq [where r = "tz * 60000 + 86400000"]) simp_all
  then have "local_day tz (Date_of_ISO_date 2024 1 1) = 19722"
    by (simp add: local_day_def Date_of_ISO_date_def msPerDay_def floor_day_number)
  from format_by_local_day [OF this] show ?thesis
    by (simp add: calculateDateRange_def formatted_days)
qed

text \<open>
  C7, evaluated in a browser five hours west of UTC at noon of 2025-03-15 local time
  (time value 1742058000000). \<open>thismonth\<close> and \<open>7days\<close> resolve as the claim says;
  \<open>alltime\<close> starts at 2023-12-31, not at the floor date 2024-01-01.
\<close>

theorem calculateDateRange_west_of_UTC:
  "calculateDateRange (- 300) 1742058000000 ''thismonth'' = (''2025-03-01'', ''2025-03-31'')
   \<and> calculateDateRange (- 300) 1742058000000 ''7days'' = (''2025-03-08'', ''2025-03-15'')
   \<and> calculateDateRange (- 300) 1742058000000 ''alltime'' = (''2023-12-31'', ''2025-03-15'')"
proof -
  have day: "local_day (- 300) 1742058000000 = 20162"
    by (simp add: local_day_def msPerDay_def)
  have "fst (calculateDateRange (- 300) 1742058000000 ''alltime'') = ''2023-12-31''"
    by (rule floor_day_west) simp_all
  moreover have "snd (calculateDateRange (- 300) 1742058000000 ''alltime'') = ''2025-03-15''"
    by (simp add: calculateDateRange_def format_by_local_day [OF day] formatted_days)
  ultimately have "calculateDateRange (- 300) 1742058000000 ''alltime''
      = (''2023-12-31'', ''2025-03-15'')"
    by (simp add: prod_eq_iff)
  with on_2025_03_15 [OF day] show ?thesis by simp
qed

lemma last_30_days_example:
  "calculateDateRange 0 1742040000000 ''30days'' = (''2025-02-13'', ''2025-03-15'')"
  by code_simp

text \<open>
  C10. A selector that is none of \<open>7days\<close>, \<open>30days\<close>, \<open>thismonth\<close>, \<open>thisyear\<close>
  and \<open>alltime\<close> resolves to the last thirty days, from \<open>today\<close> minus 30 days to
  \<open>today\<close>, as \<open>30days\<close> does.
\<close>

theorem unknown_selector_falls_back:
  assumes "range' \<notin> {''7days'', ''30days'', ''thismonth'', ''thisyear'', ''alltime''}"
  shows "calculateDateRange tz today range' = calculateDateRange tz today ''30days''
       \<and> calculateDateRange tz today range'
           = (format_yyyy_MM_dd tz (subDays tz today 30), format_yyyy_MM_dd tz today)"
  using assms by (simp add: calculateDateRange_def)

theorem unknown_selector_falls_back_witness:
  "''lastweek'' \<notin> {''7days'', ''30days'', ''thismonth'', ''thisyear'', ''alltime''}
   \<and> calculateDateRange 0 1742040000000 ''lastweek'' = (''2025-02-13'', ''2025-03-15'')"
  using unknown_selector_falls_back [of "''lastweek''" 0 1742040000000] last_30_days_example
  by simp


section \<open>The normalizer on populated payloads\<close>

lemma js_or_num: "is_num v \<Longrightarrow> js_or v (JNum 0) = v"
  by (cases v) (auto simp: js_or_def)

lemma js_or_obj: "is_obj v \<Longrightarrow> js_or v d = v"
  by (cases v) (auto simp: js_or_def)

lemma js_or_arr: "is_arr v \<Longrightarrow> js_or v d = v"
  by (cases v) (auto simp: js_or_def)

lemma js_or_truthy: "truthy v \<Longrightarrow> js_or v d = v"
  by (simp add: js_or_def)

lemma is_obj_not_nullish: "is_obj v \<Longrightarrow> \<not> nullish v"
  by (cases v) auto

lemma map_items_total:
  assumes "\<And>x. x \<in> set xs \<Longrightarrow> f x = Inr (g x)"
  shows "map_items f xs = Inr (map g xs)"
  using assms by (induction xs) auto

lemma array_map_total:
  assumes "is_arr v" and "\<And>x. x \<in> set (items v) \<Longrightarrow> f x = Inr (g x)"
  shows "array_map f v = Inr (JArr (map g (items v)))"
proof -
  obtain xs where v: "v = JArr xs"
    using assms(1) by (cases v) auto
  with assms(2) have "map_items f xs = Inr (map g xs)"
    by (intro map_items_total) simp
  with v show ?thesis
    by (simp add: array_map_def)
qed

lemma customer_item_populated:
  "populated_customer c \<Longrightarrow> customer_item c = Inr (customer_shape c)"
  by (simp add: populated_customer_def customer_item_def customer_shape_def
      is_obj_not_nullish js_or_num js_or_truthy)

lemma Dashboard_series_item_populated:
  "populated_series_item i \<Longrightarrow>
   Dashboard_series_item i = Inr (series_shape [''date'', ''events'', ''cost'', ''revenue''] i)"
  by (simp add: populated_series_item_def Dashboard_series_item_def series_shape_def
      is_obj_not_nullish js_or_num)

lemma Analytics_series_item_populated:
  "populated_series_item i \<Longrightarrow>
   Analytics_series_item i
     = Inr (series_shape [''date'', ''events'', ''cost'', ''revenue'', ''profit''] i)"
  by (simp add: populated_series_item_def Analytics_series_item_def series_shape_def
      is_obj_not_nullish js_or_num)

lemma summary_of_populated:
  "list_all (\<lambda>k. is_num (field data k))
     [''totalEvents'', ''totalTokens'', ''totalCost'', ''totalRevenue'', ''totalProfit'',
      ''profitMargin''] \<Longrightarrow> summary_of data = summary_shape data"
  by (simp add: summary_of_def summary_shape_def js_or_num)

lemma full_payload_populated: "fully_populated full_payload"
  by (simp add: fully_populated_def full_payload_def populated_series_item_def
      populated_customer_def)

lemma full_payload_view: "Analytics_transformedData full_payload = Inr full_view"
  by (simp add: Analytics_transformedData_def full_payload_def full_view_def summary_of_def
      array_map_def js_or_def Analytics_series_item_def customer_item_def)

text \<open>
  C9, as the pages have it. Normalizing a fully populated payload puts no default in
  and changes no value: the view model is the payload's own values in the view model's
  shape (totals under \<open>summary\<close>, series items cut to the fields the page keeps,
  customers as \<open>customerName\<close>, \<open>totalCost\<close>, \<open>eventCount\<close>, the fields no page reads
  left out).
\<close>

theorem populated_payload_reshaped:
  assumes "fully_populated data"
  shows "Dashboard_transformedData data = Inr (Dashboard_shape data)
       \<and> Analytics_transformedData data = Inr (Analytics_shape data)"
proof -
  from assms have obj: "\<not> nullish data"
    by (simp add: fully_populated_def is_obj_not_nullish)
  from assms have sm: "summary_of data = summary_shape data"
    by (intro summary_of_populated) (simp add: fully_populated_def)
  from assms have ts: "is_arr (field data ''timeSeriesData'')"
    and tsi: "\<And>x. x \<in> set (items (field data ''timeSeriesData'')) \<Longrightarrow> populated_series_item x"
    and tc: "is_arr (field data ''topCustomers'')"
    and tci: "\<And>x. x \<in> set (items (field data ''topCustomers'')) \<Longrightarrow> populated_customer x"
    and an: "is_arr (field data ''anomalies'')"
    by (simp_all add: fully_populated_def list_all_iff)
  have d_series: "array_map Dashboard_series_item (field data ''timeSeriesData'')
      = Inr (JArr (map (series_shape [''date'', ''events'', ''cost'', ''revenue''])
               (items (field data ''timeSeriesData''))))"
    using ts tsi by (intro array_map_total) (simp_all add: Dashboard_series_item_populated)
  have a_series: "array_map Analytics_series_item (field data ''timeSeriesData'')
      = Inr (JArr (map (series_shape [''date'', ''events'', ''cost'', ''revenue'', ''profit''])
               (items (field data ''timeSeriesData''))))"
    using ts tsi by (intro array_map_total) (simp_all add: Analytics_series_item_populated)
  have customers: "array_map customer_item (field data ''topCustomers'')
      = Inr (JArr (map customer_shape (items (field data ''topCustomers''))))"
    using tc tci by (intro array_map_total) (simp_all add: customer_item_populated)
  from assms have objs:
    "js_or (field data ''usageByVendor'') (JObj []) = field data ''usageByVendor''"
    "js_or (field data ''usageByModel'') (JObj []) = field data ''usageByModel''"
    "js_or (field data ''usageByApiType'') (JObj []) = field data ''usageByApiType''"
    "js_or (field data ''usageByRegion'') (JObj []) = field data ''usageByRegion''"
    "js_or (field data ''usageByEndpoint'') (JObj []) = field data ''usageByEndpoint''"
    "js_or (field data ''usageByUserRole'') (JObj []) = field data ''usageByUserRole''"
    "js_or (field data ''growthMetrics'') (JObj []) = field data ''growthMetrics''"
    "js_or (field data ''predictions'') (JObj []) = field data ''predictions''"
    "js_or (field data ''efficiencyMetrics'') (JObj []) = field data ''efficiencyMetrics''"
    "js_or (field data ''seasonality'') (JObj []) = field data ''seasonality''"
    by (simp_all add: fully_populated_def js_or_obj)
  have arrs:
    "js_or (field data ''timeSeriesData'') (JArr []) = field data ''timeSeriesData''"
    "js_or (field data ''topCustomers'') (JArr []) = field data ''topCustomers''"
    "js_or (field data ''anomalies'') (JArr []) = field data ''anomalies''"
    using ts tc an by (simp_all add: js_or_arr)
  have "Dashboard_transformedData data = Inr (Dashboard_shape data)"
    by (simp add: Dashboard_transformedData_def Dashboard_shape_def obj sm objs arrs
        d_series customers)
  moreover have "Analytics_transformedData data = Inr (Analytics_shape data)"
    by (simp add: Analytics_transformedData_def Analytics_shape_def obj sm objs arrs
        a_series customers)
  ultimately show ?thesis by simp
qed

theorem populated_payload_reshaped_witness:
  "fully_populated full_payload
   \<and> Analytics_transformedData full_payload = Inr (Analytics_shape full_payload)
   \<and> Analytics_shape full_payload = full_view"
  using populated_payload_reshaped [OF full_payload_populated] full_payload_populated
    full_payload_view
  by simp

text \<open>
  C9 as stated fails: the view model of a fully populated payload is not that payload,
  on either page, and normalizing the view model once more does not give it back.
\<close>

theorem normalizer_not_identity_counterexample:
  "fully_populated full_payload
   \<and> Analytics_transformedData full_payload = Inr full_view
   \<and> Analytics_transformedData full_payload \<noteq> Inr full_payload
   \<and> Dashboard_transformedData full_payload \<noteq> Inr full_payload
   \<and> Analytics_transformedData full_view \<noteq> Inr full_view"
proof -
  have "full_view \<noteq> full_payload"
    by (simp add: full_view_def full_payload_def)
  then have "Analytics_transformedData full_payload \<noteq> Inr full_payload"
    by (simp add: full_payload_view)
  moreover have "Dashboard_transformedData full_payload \<noteq> Inr full_payload"
    by (simp add: Dashboard_transformedData_def full_payload_def summary_of_def
        array_map_def js_or_def Dashboard_series_item_def customer_item_def)
  moreover have "Analytics_transformedData full_view \<noteq> Inr full_view"
    by (simp add: Analytics_transformedData_def full_view_def summary_of_def
        array_map_def js_or_def Analytics_series_item_def customer_item_def)
  ultimately show ?thesis
    using full_payload_populated full_payload_view by simp
qed

end
